theory Spec2Isabelle
  imports Main "HOL-Library.Sublist"
begin

section \<open>EmailView of views/inbox/email.py\<close>

text \<open>
  The view renders one stored email: it scans the MIME parts, picks the body
  (\<open>find_body\<close>), cleans an HTML body, decides whether images are shown,
  strips image sources, and decodes the body last (\<open>get_context_data\<close>).
  Byte strings (Python 2 \<open>str\<close>) and header values are \<open>string\<close>.
\<close>

subsection \<open>Exceptions\<close>

text \<open>
  The classes of Python exception that the view can meet. A subclass stands
  under the class an \<open>except\<close> clause names: \<open>UnicodeError\<close> under
  \<open>ValueError\<close>, lxml's \<open>ParserError\<close> and \<open>XMLSyntaxError\<close> under
  \<open>LxmlError\<close>. \<open>OtherException\<close> is any class that none of the view's
  handlers names, apart from the catch-all \<open>except Exception\<close>.
\<close>

datatype exc =
  KeyError | ValueError | LxmlError | LookupError | AttributeError | OtherException

subsection \<open>MIME parts\<close>

text \<open>
  A row of the part table: primary key, parent (a foreign key, compared by
  key; \<open>None\<close> for the root), the nested-set position \<open>lft\<close>/\<open>rght\<close>, the
  body bytes, and the dictionary that \<open>header_set.get_many("Content-Type",
  "Content-Disposition")\<close> returns. The attribute \<open>charset\<close> is assigned by
  the scan of \<open>get_context_data\<close> (line 147) before anything reads it.
\<close>

record part =
  pk :: nat
  parent :: "nat option"
  lft :: int
  rght :: int
  body_data :: string
  header_set :: "string \<rightharpoonup> string"
  charset :: string

subsection \<open>find_body (lines 85-105)\<close>

text \<open>
  The result is Python's \<open>None\<close>, \<open>True\<close> (the body is the plain-text part)
  or \<open>False\<close> (the body is the HTML part). The first argument is the
  value of \<open>request.user.userprofile.flags.prefer_html_email\<close>.
\<close>

fun find_body :: "bool \<Rightarrow> part option \<Rightarrow> part option \<Rightarrow> bool option" where
  "find_body prefer_html None None = None"
| "find_body prefer_html None (Some plain) = Some True"
| "find_body prefer_html (Some html) None = Some False"
| "find_body prefer_html (Some html) (Some plain) =
     (if parent html = parent plain then Some (\<not> prefer_html)
      else if lft html < lft plain then Some False
      else Some True)"

subsection \<open>Header parameters (line 36 and lines 125-147)\<close>

text \<open>
  \<open>HEADER_PARAMS\<close> is the regular expression
  \<^verbatim>\<open>([a-zA-Z0-9]+)=["']?([^"';=]+)["']?[;]?\<close>.
  A match at the start of a string takes the longest run of letters and digits,
  an equals sign, an optional quote, the longest non-empty run of characters
  other than quotes, semicolon and equals sign, an optional quote and an
  optional semicolon. Every item after the first group is either forced or
  optional at the end, so no backtracking finds a match that this greedy
  reading misses.
\<close>

definition is_alnum :: "char \<Rightarrow> bool" where
  "is_alnum c =
     (c \<in> set ''abcdefghijklmnopqrstuvwxyzABCDEFGHIJKLMNOPQRSTUVWXYZ0123456789'')"

definition is_quote :: "char \<Rightarrow> bool" where
  "is_quote c = (c = CHR 0x22 \<or> c = CHR 0x27)"

definition is_value_char :: "char \<Rightarrow> bool" where
  "is_value_char c = (\<not> is_quote c \<and> c \<noteq> CHR '';'' \<and> c \<noteq> CHR ''='')"

fun optional :: "(char \<Rightarrow> bool) \<Rightarrow> string \<Rightarrow> string" where
  "optional P [] = []"
| "optional P (c # cs) = (if P c then cs else c # cs)"

text \<open>The two groups of a match at the start of \<open>s\<close>, and what follows the match.\<close>

definition HEADER_PARAMS_match :: "string \<Rightarrow> (string \<times> string \<times> string) option" where
  "HEADER_PARAMS_match s =
     (let name = takeWhile is_alnum s; s1 = dropWhile is_alnum s in
      if name = [] then None
      else case s1 of
        [] \<Rightarrow> None
      | c # s2 \<Rightarrow>
          if c \<noteq> CHR ''='' then None
          else let s3 = optional is_quote s2;
                   v = takeWhile is_value_char s3;
                   s4 = dropWhile is_value_char s3
               in if v = [] then None
                  else Some (name, v, optional (\<lambda>c. c = CHR '';'') (optional is_quote s4)))"

lemma optional_length: "length (optional P s) \<le> length s"
  by (cases s) auto

lemma HEADER_PARAMS_match_shorter:
  assumes "HEADER_PARAMS_match s = Some (k, v, rest)"
  shows "length rest < length s"
proof -
  from assms obtain s2 where s1: "dropWhile is_alnum s = CHR ''='' # s2"
    and rest: "rest = optional (\<lambda>c. c = CHR '';'')
                 (optional is_quote (dropWhile is_value_char (optional is_quote s2)))"
    by (auto simp: HEADER_PARAMS_match_def Let_def split: if_splits list.splits)
  have "length rest \<le> length (dropWhile is_value_char (optional is_quote s2))"
    unfolding rest by (meson optional_length order_trans)
  also have "\<dots> \<le> length (optional is_quote s2)" by (rule length_dropWhile_le)
  also have "\<dots> \<le> length s2" by (rule optional_length)
  also have "\<dots> < length (dropWhile is_alnum s)" by (simp add: s1)
  also have "\<dots> \<le> length s" by (rule length_dropWhile_le)
  finally show ?thesis .
qed

text \<open>
  \<open>HEADER_PARAMS.findall\<close>: the matches from left to right, each search
  starting where the last match ended, one character further on where there
  is no match.
\<close>

function findall :: "string \<Rightarrow> (string \<times> string) list" where
  "findall [] = []"
| "findall (c # cs) =
     (case HEADER_PARAMS_match (c # cs) of
        None \<Rightarrow> findall cs
      | Some (k, v, rest) \<Rightarrow> (k, v) # findall rest)"
  by pat_completeness auto
termination
  by (relation "measure length") (auto dest: HEADER_PARAMS_match_shorter)

text \<open>\<open>dict(pairs)\<close>: of two pairs with one key the later one stays.\<close>

definition dict :: "(string \<times> string) list \<Rightarrow> (string \<rightharpoonup> string)" where
  "dict kvs = map_of (rev kvs)"

text \<open>\<open>d.get(k, default)\<close>, and \<open>d.pop(k, default)\<close> as far as its value goes.\<close>

definition get_default :: "(string \<rightharpoonup> string) \<Rightarrow> string \<Rightarrow> string \<Rightarrow> string" where
  "get_default d k dflt = (case d k of None \<Rightarrow> dflt | Some v \<Rightarrow> v)"

text \<open>
  \<open>s.split(";", 1)\<close> returns one item, or two when \<open>s\<close> has a semicolon:
  the first item, and the second if there is one.
\<close>

definition split_first :: "string \<Rightarrow> string \<times> string option" where
  "split_first s =
     (if CHR '';'' \<in> set s
      then (takeWhile (\<lambda>c. c \<noteq> CHR '';'') s, Some (tl (dropWhile (\<lambda>c. c \<noteq> CHR '';'') s)))
      else (s, None))"

text \<open>
  Lines 132-136: the parameters of the content type, none when the split gave
  one item (\<open>IndexError\<close>), updated with those of the disposition.
\<close>

definition part_params :: "string option \<Rightarrow> string \<Rightarrow> (string \<rightharpoonup> string)" where
  "part_params ct_params dispos =
     (case ct_params of None \<Rightarrow> Map.empty | Some s \<Rightarrow> dict (findall s)) ++ dict (findall dispos)"

text \<open>What is left in \<open>part_head\<close> once both headers are popped.\<close>

record part_head =
  content_type :: "string \<times> string option"
  filename :: string

subsection \<open>The scan of the parts (lines 121-154)\<close>

text \<open>
  Line 126: the content type of a part, split at the first semicolon.
  Lines 127 and 132-136: its parameters.
\<close>

definition content_type_of :: "part \<Rightarrow> string \<times> string option" where
  "content_type_of p = split_first (get_default (header_set p) ''Content-Type'' '''')"

definition params_of :: "part \<Rightarrow> (string \<rightharpoonup> string)" where
  "params_of p =
     part_params (snd (content_type_of p)) (get_default (header_set p) ''Content-Disposition'' '''')"

fun iterate_parts ::
  "part list \<Rightarrow> part option \<Rightarrow> part option \<Rightarrow> (part \<times> part_head) list
   \<Rightarrow> part option \<times> part option \<times> (part \<times> part_head) list" where
  "iterate_parts [] html plain atts = (html, plain, atts)"
| "iterate_parts (p # ps) html plain atts =
     (let ctype = content_type_of p
      in if prefix ''multipart'' (fst ctype) \<or> prefix ''message'' (fst ctype)
         then iterate_parts ps html plain atts
         else
           let params = params_of p;
               fname = (if params ''filename'' \<noteq> None then get_default params ''filename'' ''''
                        else if params ''name'' \<noteq> None then get_default params ''name'' ''''
                        else '''');
               p' = p\<lparr>charset := get_default params ''charset'' ''utf-8''\<rparr>;
               entry = (p', \<lparr>content_type = ctype, filename = fname\<rparr>)
           in if html = None \<and> fst ctype = ''text/html''
              then iterate_parts ps (Some p') plain (atts @ [entry])
              else if plain = None \<and> fst ctype = ''text/plain''
              then iterate_parts ps html (Some p') (atts @ [entry])
              else iterate_parts ps html plain (atts @ [entry]))"

subsection \<open>What the scan is to find\<close>

text \<open>
  The words of the scan, for stating what it returns: a container is a part
  that line 129 skips; the other parts of a message, in their order, are its
  non-container parts; a part with its charset resolved is what line 147
  makes of it; its entry in \<open>attachments\<close> is the pair of line 154.
\<close>

definition main_type :: "part \<Rightarrow> string" where
  "main_type p = fst (content_type_of p)"

definition is_container :: "part \<Rightarrow> bool" where
  "is_container p = (prefix ''multipart'' (main_type p) \<or> prefix ''message'' (main_type p))"

definition non_containers :: "part list \<Rightarrow> part list" where
  "non_containers ps = filter (\<lambda>p. \<not> is_container p) ps"

definition resolved_charset :: "part \<Rightarrow> string" where
  "resolved_charset p = get_default (params_of p) ''charset'' ''utf-8''"

definition resolved :: "part \<Rightarrow> part" where
  "resolved p = p\<lparr>charset := resolved_charset p\<rparr>"

definition resolved_filename :: "part \<Rightarrow> string" where
  "resolved_filename p =
     (if params_of p ''filename'' \<noteq> None then get_default (params_of p) ''filename'' ''''
      else if params_of p ''name'' \<noteq> None then get_default (params_of p) ''name'' ''''
      else '''')"

definition attachment :: "part \<Rightarrow> part \<times> part_head" where
  "attachment p =
     (resolved p, \<lparr>content_type = content_type_of p, filename = resolved_filename p\<rparr>)"

text \<open>The first non-container part of a main type, if the scan has none yet.\<close>

definition first_of_type :: "string \<Rightarrow> part option \<Rightarrow> part list \<Rightarrow> part option" where
  "first_of_type t found ps =
     (case found of
        Some x \<Rightarrow> Some x
      | None \<Rightarrow> map_option resolved (find (\<lambda>p. main_type p = t) (non_containers ps)))"

subsection \<open>The request, the user and the stored email\<close>

record flags =
  prefer_html_email :: bool
  ask_images :: bool
  display_images :: bool

text \<open>
  The values of \<open>request.GET\<close> are unicode strings: lists of code points.
  \<open>literal\<close> writes one that is a byte string.
\<close>

type_synonym unicode = "nat list"

definition literal :: "string \<Rightarrow> unicode" where
  "literal s = map of_char s"

record request =
  GET :: "string \<rightharpoonup> unicode"
  userprofile_flags :: flags

text \<open>
  The email object: \<open>headers\<close> is the dictionary of the top-level headers
  that the cache or \<open>get_many("Subject", "From")\<close> returns (lines 108-111),
  \<open>parts\<close> is \<open>self.object.parts.all()\<close> in the order of the query.
\<close>

record email_object =
  eid :: nat
  received_date :: nat
  inbox :: string
  headers :: "string \<rightharpoonup> string"
  parts :: "part list"

subsection \<open>The libraries\<close>

text \<open>
  Premailer, lxml and the codecs are not code of the view: they are arguments
  here. Each returns its result or raises. \<open>fromstring\<close> returns a tree;
  \<open>decode charset bytes\<close> is \<open>unicode(bytes, charset, errors="replace")\<close>.
  The last two are the tables of the interpreter's Unicode database for the
  code points from 256 on: which are white space, and which are decimal
  digits and of what value.
\<close>

datatype element = Element (tag: string) (attrib: "(string \<times> string) list") (children: "element list")

record libraries =
  premailer_transform :: "string \<Rightarrow> exc + string"
  clean_html :: "string \<Rightarrow> exc + string"
  fromstring :: "string \<Rightarrow> exc + element"
  tostring :: "element \<Rightarrow> string"
  decode :: "string \<Rightarrow> string \<Rightarrow> exc + string"
  unicode_isspace :: "nat \<Rightarrow> bool"
  unicode_todecimal :: "nat \<Rightarrow> nat option"

text \<open>
  Lines 223-227: \<open>tree.findall(".//img")\<close> finds the \<open>img\<close> elements below
  the root, and \<open>del img.attrib["src"]\<close> removes the attribute where there is one.
\<close>

fun del_src :: "element \<Rightarrow> element" where
  "del_src (Element t a cs) =
     Element t (if t = ''img'' then filter (\<lambda>kv. fst kv \<noteq> ''src'') a else a) (map del_src cs)"

definition del_img_src :: "element \<Rightarrow> element" where
  "del_img_src tree = Element (tag tree) (attrib tree) (map del_src (children tree))"

subsection \<open>The query parameter (line 209)\<close>

text \<open>
  \<open>int(s)\<close> on a unicode string, as CPython 2.7 does it. First
  \<open>PyUnicode_EncodeDecimal\<close> writes a byte string (bytes are numbers below
  256 here): a space for white space, the ASCII digit for a decimal digit, a
  code point from 1 to 255 as it is, and for anything else it raises
  \<open>UnicodeEncodeError\<close>, which is a \<open>ValueError\<close>. Below 256 the white
  space is 9-13, 28-32, 133 and 160 and the decimal digits are the ASCII ones;
  from 256 on the two tables of the interpreter are asked.
\<close>

definition Py_UNICODE_ISSPACE :: "libraries \<Rightarrow> nat \<Rightarrow> bool" where
  "Py_UNICODE_ISSPACE lib c =
     (if c < 256 then c \<in> set [9, 10, 11, 12, 13, 28, 29, 30, 31, 32, 133, 160]
      else unicode_isspace lib c)"

definition Py_UNICODE_TODECIMAL :: "libraries \<Rightarrow> nat \<Rightarrow> nat option" where
  "Py_UNICODE_TODECIMAL lib c =
     (if c < 256 then (if 48 \<le> c \<and> c \<le> 57 then Some (c - 48) else None)
      else unicode_todecimal lib c)"

fun PyUnicode_EncodeDecimal :: "libraries \<Rightarrow> unicode \<Rightarrow> exc + nat list" where
  "PyUnicode_EncodeDecimal lib [] = Inr []"
| "PyUnicode_EncodeDecimal lib (c # cs) =
     (case (if Py_UNICODE_ISSPACE lib c then Inr 32
            else case Py_UNICODE_TODECIMAL lib c of
                   Some d \<Rightarrow> Inr (48 + d)
                 | None \<Rightarrow> if 0 < c \<and> c < 256 then Inr c else Inl ValueError) of
        Inl e \<Rightarrow> Inl e
      | Inr b \<Rightarrow>
          (case PyUnicode_EncodeDecimal lib cs of
             Inl e \<Rightarrow> Inl e
           | Inr bs \<Rightarrow> Inr (b # bs)))"

text \<open>
  Then \<open>PyInt_FromString\<close> reads the bytes in base 10: white space, an
  optional sign (43 or 45), white space again (\<open>PyOS_strtoul\<close> skips it),
  one or more digits (48-57), white space, and the end of the string.
  Anything else is a \<open>ValueError\<close>.
\<close>

definition is_space :: "nat \<Rightarrow> bool" where
  "is_space b = (b \<in> set [9, 10, 11, 12, 13, 32])"

definition is_digit :: "nat \<Rightarrow> bool" where
  "is_digit b = (48 \<le> b \<and> b \<le> 57)"

definition decimal :: "nat list \<Rightarrow> int" where
  "decimal ds = foldl (\<lambda>n b. 10 * n + int (b - 48)) 0 ds"

definition PyInt_FromString :: "nat list \<Rightarrow> exc + int" where
  "PyInt_FromString s =
     (let s1 = dropWhile is_space s;
          negative = (s1 \<noteq> [] \<and> hd s1 = 45);
          s2 = (if s1 \<noteq> [] \<and> (hd s1 = 43 \<or> hd s1 = 45) then tl s1 else s1);
          s3 = dropWhile is_space s2;
          ds = takeWhile is_digit s3;
          rest = dropWhile is_space (dropWhile is_digit s3)
      in if ds \<noteq> [] \<and> rest = []
         then Inr (if negative then - decimal ds else decimal ds)
         else Inl ValueError)"

definition py_int :: "libraries \<Rightarrow> unicode \<Rightarrow> exc + int" where
  "py_int lib u =
     (case PyUnicode_EncodeDecimal lib u of
        Inl e \<Rightarrow> Inl e
      | Inr s \<Rightarrow> PyInt_FromString s)"

subsection \<open>get_context_data (lines 107-248)\<close>

datatype level = WARNING | ERROR

definition could_not_be_parsed :: string where
  "could_not_be_parsed =
     ''Part of this message could not be parsed - it may not display correctly''"

definition invalid_html :: string where
  "invalid_html = ''This email contained invalid HTML and could not be displayed''"

text \<open>
  The variables that the body of the function updates: \<open>email_dict["body"]\<close>,
  \<open>email_dict["charset"]\<close>, \<open>plain_message\<close>, and the messages sent to the
  request so far.
\<close>

record draft =
  d_body :: string
  d_charset :: string
  d_plain_message :: bool
  d_messages :: "(level \<times> string) list"

text \<open>
  Lines 157-171, "set raw body". Reading \<open>plain.body\<close> or \<open>html.body\<close> of
  \<open>None\<close> would be an \<open>AttributeError\<close>.
\<close>

definition set_raw_body ::
  "bool \<Rightarrow> part option \<Rightarrow> part option \<Rightarrow> (part \<times> part_head) list \<Rightarrow> exc + draft" where
  "set_raw_body prefer html plain atts =
     (case find_body prefer html plain of
        None \<Rightarrow>
          (case atts of
             [a] \<Rightarrow> Inr \<lparr>d_body = body_data (fst a), d_charset = charset (fst a),
                        d_plain_message = True, d_messages = []\<rparr>
           | _ \<Rightarrow> Inr \<lparr>d_body = '''', d_charset = ''utf-8'',
                      d_plain_message = True, d_messages = []\<rparr>)
      | Some is_plain \<Rightarrow>
          if is_plain
          then (case plain of
                  None \<Rightarrow> Inl AttributeError
                | Some p \<Rightarrow> Inr \<lparr>d_body = body_data p, d_charset = charset p,
                                d_plain_message = True, d_messages = []\<rparr>)
          else (case html of
                  None \<Rightarrow> Inl AttributeError
                | Some h \<Rightarrow> Inr \<lparr>d_body = body_data h, d_charset = charset h,
                                d_plain_message = False, d_messages = []\<rparr>))"

text \<open>\<open>except (etree.LxmlError, ValueError)\<close>, lines 191 and 229.\<close>

definition parse_failure :: "exc \<Rightarrow> bool" where
  "parse_failure e = (e = LxmlError \<or> e = ValueError)"

text \<open>Lines 192-197 and, word for word, lines 230-235.\<close>

definition plain_or_empty :: "part option \<Rightarrow> draft \<Rightarrow> draft" where
  "plain_or_empty plain d =
     (case plain of
        None \<Rightarrow> d\<lparr>d_body := '''', d_charset := ''utf-8''\<rparr>
      | Some p \<Rightarrow>
          if length (body_data p) > 0
          then d\<lparr>d_body := body_data p, d_charset := charset p\<rparr>
          else d\<lparr>d_body := '''', d_charset := ''utf-8''\<rparr>)"

text \<open>
  Lines 183-187: Premailer under \<open>except Exception\<close>; a failure leaves the
  body as it is and sends a warning.
\<close>

definition inline_css :: "libraries \<Rightarrow> draft \<Rightarrow> draft" where
  "inline_css lib d =
     (case premailer_transform lib (d_body d) of
        Inr b \<Rightarrow> d\<lparr>d_body := b\<rparr>
      | Inl e \<Rightarrow> d\<lparr>d_messages := d_messages d @ [(WARNING, could_not_be_parsed)]\<rparr>)"

text \<open>
  Lines 173-200: for an HTML body, Premailer and then the cleaner under
  \<open>except (etree.LxmlError, ValueError)\<close>.
\<close>

definition clean_body :: "libraries \<Rightarrow> part option \<Rightarrow> draft \<Rightarrow> exc + draft" where
  "clean_body lib plain d =
     (if d_plain_message d then Inr d
      else
        let d1 = inline_css lib d
        in case clean_html lib (d_body d1) of
             Inr b \<Rightarrow> Inr (d1\<lparr>d_body := b\<rparr>)
           | Inl e \<Rightarrow>
               if parse_failure e
               then Inr ((plain_or_empty plain d1)
                          \<lparr>d_plain_message := True,
                           d_messages := d_messages d1 @ [(ERROR, invalid_html)]\<rparr>)
               else Inl e)"

text \<open>
  Line 209: \<open>"imgDisplay" in GET and int(GET["imgDisplay"]) == 1\<close>.
\<close>

definition img_display_requested :: "libraries \<Rightarrow> request \<Rightarrow> exc + bool" where
  "img_display_requested lib req =
     (case GET req ''imgDisplay'' of
        None \<Rightarrow> Inr False
      | Some v \<Rightarrow> (case py_int lib v of Inl e \<Rightarrow> Inl e | Inr n \<Rightarrow> Inr (n = 1)))"

text \<open>Lines 205-217: the pair \<open>(img_display, ask_images)\<close>.\<close>

definition image_flags :: "libraries \<Rightarrow> request \<Rightarrow> bool \<Rightarrow> exc + (bool \<times> bool)" where
  "image_flags lib req is_plain =
     (if is_plain then Inr (True, False)
      else case img_display_requested lib req of
             Inl e \<Rightarrow> Inl e
           | Inr requested \<Rightarrow>
               if requested then Inr (True, False)
               else if ask_images (userprofile_flags req) then Inr (False, True)
               else Inr (display_images (userprofile_flags req), False))"

text \<open>Lines 220-235, "filter images if we need to".\<close>

definition filter_images :: "libraries \<Rightarrow> part option \<Rightarrow> bool \<Rightarrow> draft \<Rightarrow> exc + draft" where
  "filter_images lib plain img_display d =
     (if img_display then Inr d
      else case fromstring lib (d_body d) of
             Inr tree \<Rightarrow> Inr (d\<lparr>d_body := tostring lib (del_img_src tree)\<rparr>)
           | Inl e \<Rightarrow> if parse_failure e then Inr (plain_or_empty plain d) else Inl e)"

record email_dict =
  e_subject :: string
  e_from :: string
  e_date :: nat
  e_inbox :: string
  e_eid :: nat
  e_body :: string
  e_charset :: string

text \<open>
  What a call leaves behind: the four entries added to the context, the
  \<open>headline\<close> of the view (line 202), and the messages sent to the request.
\<close>

record outcome =
  email :: email_dict
  plain_message :: bool
  attachments :: "(part \<times> part_head) list"
  ask_images_flag :: bool
  headline :: string
  messages :: "(level \<times> string) list"

text \<open>Lines 237-248: the decoding and the context.\<close>

definition finish ::
  "libraries \<Rightarrow> email_object \<Rightarrow> string \<Rightarrow> string \<Rightarrow> (part \<times> part_head) list \<Rightarrow> bool
   \<Rightarrow> draft \<Rightarrow> exc + outcome" where
  "finish lib obj subject sender atts ask d =
     (case decode lib (d_charset d) (d_body d) of
        Inl e \<Rightarrow> Inl e
      | Inr text \<Rightarrow>
          Inr \<lparr>email = \<lparr>e_subject = subject, e_from = sender, e_date = received_date obj,
                         e_inbox = inbox obj, e_eid = eid obj, e_body = text,
                         e_charset = d_charset d\<rparr>,
               plain_message = d_plain_message d,
               attachments = atts,
               ask_images_flag = ask,
               headline = subject,
               messages = d_messages d\<rparr>)"

definition get_context_data :: "libraries \<Rightarrow> request \<Rightarrow> email_object \<Rightarrow> exc + outcome" where
  "get_context_data lib req obj =
     (let subject = get_default (headers obj) ''Subject'' ''(No subject)'' in
      case headers obj ''From'' of
        None \<Rightarrow> Inl KeyError
      | Some sender \<Rightarrow>
          (case iterate_parts (parts obj) None None [] of
             (html, plain, atts) \<Rightarrow>
               (case set_raw_body (prefer_html_email (userprofile_flags req)) html plain atts of
                  Inl e \<Rightarrow> Inl e
                | Inr d0 \<Rightarrow>
                    (case clean_body lib plain d0 of
                       Inl e \<Rightarrow> Inl e
                     | Inr d1 \<Rightarrow>
                         (case image_flags lib req (d_plain_message d1) of
                            Inl e \<Rightarrow> Inl e
                          | Inr (img_display, ask) \<Rightarrow>
                              (case filter_images lib plain img_display d1 of
                                 Inl e \<Rightarrow> Inl e
                               | Inr d2 \<Rightarrow> finish lib obj subject sender atts ask d2))))))"

subsection \<open>Example inputs\<close>

text \<open>
  Libraries for the examples: Premailer and the cleaner return the markup as
  it is, the HTML parser of the image filter raises an \<open>LxmlError\<close>, and the
  codec knows \<open>utf-8\<close>, \<open>us-ascii\<close> and \<open>latin-1\<close>, for which it
  returns the bytes (those of the examples are ASCII), and raises
  \<open>LookupError\<close> for any other name. Of the code points from 256 on, the
  ideographic space is white space and the Arabic-Indic digits are decimal
  digits. In \<open>failing_cleaner\<close> the cleaner raises too.
\<close>

definition example_libraries :: libraries where
  "example_libraries =
     \<lparr>premailer_transform = Inr, clean_html = Inr, fromstring = (\<lambda>s. Inl LxmlError),
      tostring = (\<lambda>t. ''''),
      decode = (\<lambda>cs b. if cs \<in> set [''utf-8'', ''us-ascii'', ''latin-1'']
                        then Inr b else Inl LookupError),
      unicode_isspace = (\<lambda>c. c = 0x3000),
      unicode_todecimal = (\<lambda>c. if 0x660 \<le> c \<and> c \<le> 0x669 then Some (c - 0x660) else None)\<rparr>"

definition failing_cleaner :: libraries where
  "failing_cleaner = example_libraries\<lparr>clean_html := (\<lambda>s. Inl LxmlError)\<rparr>"

text \<open>
  A multipart/alternative message; an HTML message; a message that is one
  image; a multipart/mixed message of an image and a table, and the same
  without the table; a message without parts.
\<close>

definition root_part :: part where
  "root_part = \<lparr>pk = 1, parent = None, lft = 1, rght = 6, body_data = '''',
     header_set = [''Content-Type'' \<mapsto> ''multipart/alternative; boundary=xyz''],
     charset = ''''\<rparr>"

definition plain_part :: part where
  "plain_part = \<lparr>pk = 2, parent = Some 1, lft = 2, rght = 3, body_data = ''hello'',
     header_set = [''Content-Type'' \<mapsto> ''text/plain; charset=us-ascii''], charset = ''''\<rparr>"

definition html_part :: part where
  "html_part = \<lparr>pk = 3, parent = Some 1, lft = 4, rght = 5, body_data = ''<p>hello</p>'',
     header_set = [''Content-Type'' \<mapsto> ''text/html; charset=latin-1''], charset = ''''\<rparr>"

definition image_part :: part where
  "image_part = \<lparr>pk = 4, parent = None, lft = 1, rght = 2, body_data = ''PNG'',
     header_set = [''Content-Type'' \<mapsto> ''image/png'',
                   ''Content-Disposition'' \<mapsto> ''attachment; filename=a.png''],
     charset = ''''\<rparr>"

definition mixed_part :: part where
  "mixed_part = \<lparr>pk = 5, parent = None, lft = 1, rght = 6, body_data = '''',
     header_set = [''Content-Type'' \<mapsto> ''multipart/mixed; boundary=xyz''],
     charset = ''''\<rparr>"

definition table_part :: part where
  "table_part = \<lparr>pk = 6, parent = Some 5, lft = 2, rght = 3, body_data = ''a,b'',
     header_set = [''Content-Type'' \<mapsto> ''text/csv; charset=latin-1''], charset = ''''\<rparr>"

definition alternative_email :: email_object where
  "alternative_email = \<lparr>eid = 1, received_date = 0, inbox = ''inbox'',
     headers = [''From'' \<mapsto> ''a@example.org'', ''Subject'' \<mapsto> ''Hi''],
     parts = [root_part, plain_part, html_part]\<rparr>"

definition html_email :: email_object where
  "html_email = \<lparr>eid = 2, received_date = 0, inbox = ''inbox'',
     headers = [''From'' \<mapsto> ''a@example.org''],
     parts = [html_part]\<rparr>"

definition image_email :: email_object where
  "image_email = \<lparr>eid = 3, received_date = 0, inbox = ''inbox'',
     headers = [''From'' \<mapsto> ''a@example.org''],
     parts = [image_part]\<rparr>"

definition empty_email :: email_object where
  "empty_email = \<lparr>eid = 4, received_date = 0, inbox = ''inbox'',
     headers = [''From'' \<mapsto> ''a@example.org''],
     parts = []\<rparr>"

definition mixed_email :: email_object where
  "mixed_email = \<lparr>eid = 5, received_date = 0, inbox = ''inbox'',
     headers = [''From'' \<mapsto> ''a@example.org''],
     parts = [mixed_part, table_part, image_part]\<rparr>"

definition table_email :: email_object where
  "table_email = \<lparr>eid = 6, received_date = 0, inbox = ''inbox'',
     headers = [''From'' \<mapsto> ''a@example.org''],
     parts = [mixed_part, table_part]\<rparr>"

text \<open>A user who prefers HTML and is asked before images are shown.\<close>

definition asking_user :: flags where
  "asking_user = \<lparr>prefer_html_email = True, ask_images = True, display_images = False\<rparr>"

section \<open>Running the examples\<close>

text \<open>The header values of the example parts, the query values, and the scans.\<close>

lemma findall_examples:
  "findall '' boundary=xyz'' = [(''boundary'', ''xyz'')]"
  "findall '' charset=us-ascii'' = [(''charset'', ''us-ascii'')]"
  "findall '' charset=latin-1'' = [(''charset'', ''latin-1'')]"
  "findall ''attachment; filename=a.png'' = [(''filename'', ''a.png'')]"
  by code_simp+

lemma split_first_examples:
  "split_first ''multipart/alternative; boundary=xyz'' =
     (''multipart/alternative'', Some '' boundary=xyz'')"
  "split_first ''multipart/mixed; boundary=xyz'' = (''multipart/mixed'', Some '' boundary=xyz'')"
  "split_first ''text/plain; charset=us-ascii'' = (''text/plain'', Some '' charset=us-ascii'')"
  "split_first ''text/html; charset=latin-1'' = (''text/html'', Some '' charset=latin-1'')"
  "split_first ''text/csv; charset=latin-1'' = (''text/csv'', Some '' charset=latin-1'')"
  "split_first ''image/png'' = (''image/png'', None)"
  by code_simp+

text \<open>
  \<open>int\<close> on some query values: no number; numbers with white space, after
  the sign too; an Arabic-Indic one; a sign on its own; a euro sign.
\<close>

lemma literal_examples:
  "literal ''abc'' = [97, 98, 99]"
  "literal ''1'' = [49]"
  "literal '' +01 '' = [32, 43, 48, 49, 32]"
  "literal ''- 1'' = [45, 32, 49]"
  "literal ''0'' = [48]"
  "literal ''+'' = [43]"
  "literal ''1 2'' = [49, 32, 50]"
  by (simp_all add: literal_def)

lemmas int_defs = py_int_def Py_UNICODE_ISSPACE_def Py_UNICODE_TODECIMAL_def
  PyInt_FromString_def is_space_def is_digit_def decimal_def example_libraries_def Let_def
  literal_examples

lemma py_int_examples:
  "py_int example_libraries (literal ''abc'') = Inl ValueError"
  "py_int example_libraries (literal ''1'') = Inr 1"
  "py_int example_libraries (literal '' +01 '') = Inr 1"
  "py_int example_libraries (literal ''- 1'') = Inr (- 1)"
  "py_int example_libraries (literal ''0'') = Inr 0"
  "py_int example_libraries [0x3000, 0x661] = Inr 1"
  "py_int example_libraries (literal ''+'') = Inl ValueError"
  "py_int example_libraries (literal ''1 2'') = Inl ValueError"
  "py_int example_libraries [0x20AC] = Inl ValueError"
  by (simp_all add: int_defs)

lemmas scan_defs =
  content_type_of_def params_of_def get_default_def part_params_def dict_def Let_def map_add_def
  split_first_examples findall_examples

lemma scan_alternative_email:
  "iterate_parts (parts alternative_email) None None [] =
     (Some (html_part\<lparr>charset := ''latin-1''\<rparr>), Some (plain_part\<lparr>charset := ''us-ascii''\<rparr>),
      [(plain_part\<lparr>charset := ''us-ascii''\<rparr>,
        \<lparr>content_type = (''text/plain'', Some '' charset=us-ascii''), filename = ''''\<rparr>),
       (html_part\<lparr>charset := ''latin-1''\<rparr>,
        \<lparr>content_type = (''text/html'', Some '' charset=latin-1''), filename = ''''\<rparr>)])"
  by (simp add: alternative_email_def root_part_def plain_part_def html_part_def scan_defs
        del: findall.simps(2))

lemma scan_html_email:
  "iterate_parts (parts html_email) None None [] =
     (Some (html_part\<lparr>charset := ''latin-1''\<rparr>), None,
      [(html_part\<lparr>charset := ''latin-1''\<rparr>,
        \<lparr>content_type = (''text/html'', Some '' charset=latin-1''), filename = ''''\<rparr>)])"
  by (simp add: html_email_def html_part_def scan_defs del: findall.simps(2))

lemma scan_image_email:
  "iterate_parts (parts image_email) None None [] =
     (None, None,
      [(image_part\<lparr>charset := ''utf-8''\<rparr>,
        \<lparr>content_type = (''image/png'', None), filename = ''a.png''\<rparr>)])"
  by (simp add: image_email_def image_part_def scan_defs del: findall.simps(2))

lemma scan_table_email:
  "iterate_parts (parts table_email) None None [] =
     (None, None,
      [(table_part\<lparr>charset := ''latin-1''\<rparr>,
        \<lparr>content_type = (''text/csv'', Some '' charset=latin-1''), filename = ''''\<rparr>)])"
  by (simp add: table_email_def mixed_part_def table_part_def scan_defs del: findall.simps(2))

lemma scan_mixed_email:
  "iterate_parts (parts mixed_email) None None [] =
     (None, None,
      [(table_part\<lparr>charset := ''latin-1''\<rparr>,
        \<lparr>content_type = (''text/csv'', Some '' charset=latin-1''), filename = ''''\<rparr>),
       (image_part\<lparr>charset := ''utf-8''\<rparr>,
        \<lparr>content_type = (''image/png'', None), filename = ''a.png''\<rparr>)])"
  by (simp add: mixed_email_def mixed_part_def table_part_def image_part_def scan_defs
        del: findall.simps(2))


text \<open>The non-container parts of the examples and their resolved charsets.\<close>

lemma non_containers_examples:
  "non_containers (parts table_email) = [table_part]"
  "non_containers (parts mixed_email) = [table_part, image_part]"
  "non_containers (parts image_email) = [image_part]"
  by (simp_all add: non_containers_def is_container_def main_type_def table_email_def
        mixed_email_def image_email_def mixed_part_def table_part_def image_part_def scan_defs
        del: findall.simps(2))

lemma resolved_charset_examples:
  "resolved_charset table_part = ''latin-1''"
  "resolved_charset image_part = ''utf-8''"
  by (simp_all add: resolved_charset_def table_part_def image_part_def scan_defs
        del: findall.simps(2))

section \<open>What the scan returns\<close>

text \<open>
  The scan returns the first non-container part of main type \<open>text/html\<close>,
  the first of main type \<open>text/plain\<close>, and one attachment for every
  non-container part of the message, in the order of the parts, each with its
  own charset resolved.
\<close>

lemma first_of_type_Cons:
  "first_of_type t found (p # ps) =
     (if is_container p then first_of_type t found ps
      else first_of_type t (if found = None \<and> main_type p = t then Some (resolved p) else found) ps)"
  by (cases found) (simp_all add: first_of_type_def non_containers_def)

lemma iterate_parts_eq:
  "iterate_parts ps html plain atts =
     (first_of_type ''text/html'' html ps, first_of_type ''text/plain'' plain ps,
      atts @ map attachment (non_containers ps))"
proof (induction ps arbitrary: html plain atts)
  case Nil
  show ?case by (cases html; cases plain) (simp_all add: first_of_type_def non_containers_def)
next
  case (Cons p ps)
  show ?case
  proof (cases "is_container p")
    case True
    then have "iterate_parts (p # ps) html plain atts = iterate_parts ps html plain atts"
      by (simp add: is_container_def main_type_def)
    with True show ?thesis
      by (simp add: Cons.IH first_of_type_Cons non_containers_def)
  next
    case False
    then have no: "\<not> (prefix ''multipart'' (fst (content_type_of p))
                       \<or> prefix ''message'' (fst (content_type_of p)))"
      by (simp add: is_container_def main_type_def)
    have step: "iterate_parts (p # ps) html plain atts =
        iterate_parts ps
          (if html = None \<and> main_type p = ''text/html'' then Some (resolved p) else html)
          (if plain = None \<and> main_type p = ''text/plain'' then Some (resolved p) else plain)
          (atts @ [attachment p])"
      using no
      by (simp add: Let_def main_type_def resolved_def resolved_charset_def attachment_def
            resolved_filename_def)
    show ?thesis
      unfolding step Cons.IH
      using False by (simp add: first_of_type_Cons non_containers_def)
  qed
qed

lemma first_of_type_None:
  "first_of_type t None ps = None \<longleftrightarrow> (\<forall>p\<in>set (non_containers ps). main_type p \<noteq> t)"
  by (simp add: first_of_type_def find_None_iff) blast

section \<open>The steps of get_context_data\<close>

text \<open>
  A call whose steps all return is the last step applied to their results; a
  call whose query parameter cannot be read raises; a plain-text draft passes
  the cleaner and the image filter as it is.
\<close>

lemma get_context_data_stages:
  assumes "headers obj ''From'' = Some sender"
    and "iterate_parts (parts obj) None None [] = (html, plain, atts)"
    and "set_raw_body (prefer_html_email (userprofile_flags req)) html plain atts = Inr d0"
    and "clean_body lib plain d0 = Inr d1"
    and "image_flags lib req (d_plain_message d1) = Inr (img_display, ask)"
    and "filter_images lib plain img_display d1 = Inr d2"
  shows "get_context_data lib req obj =
           finish lib obj (get_default (headers obj) ''Subject'' ''(No subject)'') sender atts ask d2"
  using assms by (simp add: get_context_data_def)

lemma get_context_data_flags_raise:
  assumes "headers obj ''From'' = Some sender"
    and "iterate_parts (parts obj) None None [] = (html, plain, atts)"
    and "set_raw_body (prefer_html_email (userprofile_flags req)) html plain atts = Inr d0"
    and "clean_body lib plain d0 = Inr d1"
    and "image_flags lib req (d_plain_message d1) = Inl e"
  shows "get_context_data lib req obj = Inl e"
  using assms by (simp add: get_context_data_def)

lemma plain_draft_stages:
  assumes "headers obj ''From'' = Some sender"
    and "iterate_parts (parts obj) None None [] = (html, plain, atts)"
    and "set_raw_body (prefer_html_email (userprofile_flags req)) html plain atts = Inr d0"
    and "d_plain_message d0"
  shows "get_context_data lib req obj =
           finish lib obj (get_default (headers obj) ''Subject'' ''(No subject)'') sender atts False d0"
proof -
  have c: "clean_body lib plain d0 = Inr d0" using assms(4) by (simp add: clean_body_def)
  have i: "image_flags lib req (d_plain_message d0) = Inr (True, False)"
    using assms(4) by (simp add: image_flags_def)
  have f: "filter_images lib plain True d0 = Inr d0" by (simp add: filter_images_def)
  show ?thesis by (rule get_context_data_stages [OF assms(1-3) c i f])
qed

text \<open>Premailer changes the body or adds a warning, nothing else.\<close>

lemma inline_css_body:
  "d_body (inline_css lib d) =
     (case premailer_transform lib (d_body d) of Inr b \<Rightarrow> b | Inl e \<Rightarrow> d_body d)"
  by (simp add: inline_css_def split: sum.splits)

lemma inline_css_keeps:
  "d_charset (inline_css lib d) = d_charset d"
  "d_plain_message (inline_css lib d) = d_plain_message d"
  "filter (\<lambda>m. fst m = ERROR) (d_messages (inline_css lib d)) =
     filter (\<lambda>m. fst m = ERROR) (d_messages d)"
  by (simp_all add: inline_css_def split: sum.splits)

lemma clean_body_failure:
  assumes "\<not> d_plain_message d"
    and "clean_html lib (d_body (inline_css lib d)) = Inl e"
    and "parse_failure e"
  shows "clean_body lib plain d =
           Inr ((plain_or_empty plain (inline_css lib d))
                  \<lparr>d_plain_message := True,
                   d_messages := d_messages (inline_css lib d) @ [(ERROR, invalid_html)]\<rparr>)"
  using assms by (simp add: clean_body_def Let_def)

text \<open>
  The steps return: \<open>set_raw_body\<close> always (it never reads a part that is
  \<open>None\<close>), the cleaner and the image filter when the libraries raise
  nothing but \<open>LxmlError\<close> and \<open>ValueError\<close>, the image decision when
  the message is plain or the query parameter is absent or an integer. With a
  \<open>From\<close> header and a codec that decodes, the whole call returns.
\<close>

lemma set_raw_body_returns:
  "\<exists>d. set_raw_body pref html plain atts = Inr d"
  by (cases html; cases plain) (auto simp: set_raw_body_def split: list.splits)

lemma clean_body_returns:
  assumes "\<forall>b e. clean_html lib b = Inl e \<longrightarrow> parse_failure e"
  shows "\<exists>d'. clean_body lib plain d = Inr d'"
  using assms
  by (cases "clean_html lib (d_body (inline_css lib d))") (auto simp: clean_body_def Let_def)

lemma filter_images_returns:
  assumes "\<forall>b e. fromstring lib b = Inl e \<longrightarrow> parse_failure e"
  shows "\<exists>d'. filter_images lib plain img_display d = Inr d'"
  using assms
  by (cases "fromstring lib (d_body d)") (auto simp: filter_images_def)

lemma image_flags_returns:
  assumes "is_plain \<or> GET req ''imgDisplay'' = None
           \<or> (\<exists>v n. GET req ''imgDisplay'' = Some v \<and> py_int lib v = Inr n)"
  shows "\<exists>img_display ask. image_flags lib req is_plain = Inr (img_display, ask)"
  using assms by (auto simp: image_flags_def img_display_requested_def)

lemma get_context_data_returns:
  assumes "headers obj ''From'' = Some sender"
    and "\<forall>b e. clean_html lib b = Inl e \<longrightarrow> parse_failure e"
    and "\<forall>b e. fromstring lib b = Inl e \<longrightarrow> parse_failure e"
    and "\<forall>cs b. \<exists>u. decode lib cs b = Inr u"
    and "GET req ''imgDisplay'' = None
         \<or> (\<exists>v n. GET req ''imgDisplay'' = Some v \<and> py_int lib v = Inr n)"
  shows "\<exists>r. get_context_data lib req obj = Inr r"
proof -
  obtain html plain atts where
    scan: "iterate_parts (parts obj) None None [] = (html, plain, atts)"
    by (cases "iterate_parts (parts obj) None None []") auto
  obtain d0 where
    raw: "set_raw_body (prefer_html_email (userprofile_flags req)) html plain atts = Inr d0"
    using set_raw_body_returns by blast
  obtain d1 where clean: "clean_body lib plain d0 = Inr d1"
    using clean_body_returns [OF assms(2)] by blast
  obtain img_display ask where
    flags: "image_flags lib req (d_plain_message d1) = Inr (img_display, ask)"
    using image_flags_returns [where lib = lib and req = req] assms(5) by blast
  obtain d2 where filt: "filter_images lib plain img_display d1 = Inr d2"
    using filter_images_returns [OF assms(3)] by blast
  obtain u where "decode lib (d_charset d2) (d_body d2) = Inr u"
    using assms(4) by blast
  then show ?thesis
    unfolding get_context_data_stages [OF assms(1) scan raw clean flags filt]
    by (simp add: finish_def)
qed

text \<open>
  The HTML and plain-text parts that the scan picks are among the attachments.
\<close>

lemma iterate_parts_selected:
  assumes "iterate_parts ps html plain atts = (html', plain', atts')"
    and "\<And>x. html = Some x \<Longrightarrow> x \<in> fst ` set atts"
    and "\<And>x. plain = Some x \<Longrightarrow> x \<in> fst ` set atts"
  shows "(html' = Some x \<longrightarrow> x \<in> fst ` set atts') \<and> (plain' = Some x \<longrightarrow> x \<in> fst ` set atts')"
  using assms
proof (induction ps arbitrary: html plain atts)
  case Nil
  then show ?case by auto
next
  case (Cons p ps)
  show ?case
  proof (cases "prefix ''multipart'' (fst (content_type_of p))
                \<or> prefix ''message'' (fst (content_type_of p))")
    case True
    with Cons.prems(1) have "iterate_parts ps html plain atts = (html', plain', atts')"
      by simp
    from Cons.IH [OF this Cons.prems(2,3)] show ?thesis by simp
  next
    case False
    define p' where "p' = p\<lparr>charset := get_default (params_of p) ''charset'' ''utf-8''\<rparr>"
    from False obtain h1 p1 fname where
      step: "iterate_parts ps h1 p1 (atts @ [(p', \<lparr>content_type = content_type_of p, filename = fname\<rparr>)])
             = (html', plain', atts')"
      and h1: "h1 = html \<or> h1 = Some p'" and p1: "p1 = plain \<or> p1 = Some p'"
      using Cons.prems(1) unfolding p'_def by (simp add: Let_def split: if_splits)
    have a: "y \<in> fst ` set (atts @ [(p', \<lparr>content_type = content_type_of p, filename = fname\<rparr>)])"
      if "h1 = Some y" for y
      using that h1 Cons.prems(2) by force
    have b: "y \<in> fst ` set (atts @ [(p', \<lparr>content_type = content_type_of p, filename = fname\<rparr>)])"
      if "p1 = Some y" for y
      using that p1 Cons.prems(3) by force
    from Cons.IH [OF step a b] show ?thesis by simp
  qed
qed

text \<open>
  The charset of a rendered email is \<open>utf-8\<close> or the resolved charset of
  one of its attachments.
\<close>

lemma returned_charset:
  assumes "get_context_data lib req obj = Inr r"
  shows "e_charset (email r) = ''utf-8''
       \<or> (\<exists>a\<in>set (attachments r). e_charset (email r) = charset (fst a))"
proof -
  from assms obtain sender html plain atts d0 d1 img ask d2 where
    scan: "iterate_parts (parts obj) None None [] = (html, plain, atts)"
    and raw: "set_raw_body (prefer_html_email (userprofile_flags req)) html plain atts = Inr d0"
    and clean: "clean_body lib plain d0 = Inr d1"
    and filt: "filter_images lib plain img d1 = Inr d2"
    and fin: "finish lib obj (get_default (headers obj) ''Subject'' ''(No subject)'')
                sender atts ask d2 = Inr r"
    by (auto simp: get_context_data_def Let_def split: option.splits sum.splits prod.splits)
  define ok where "ok cs \<longleftrightarrow> cs = ''utf-8'' \<or> (\<exists>x\<in>fst ` set atts. cs = charset x)" for cs
  from iterate_parts_selected [OF scan]
  have sel: "html = Some x \<Longrightarrow> x \<in> fst ` set atts" "plain = Some x \<Longrightarrow> x \<in> fst ` set atts" for x
    by simp_all
  from raw have "d_charset d0 = ''utf-8''
      \<or> (\<exists>x. (html = Some x \<or> plain = Some x \<or> (\<exists>h. atts = [(x, h)])) \<and> d_charset d0 = charset x)"
    by (auto simp: set_raw_body_def split: option.splits list.splits if_splits)
  then have ok0: "ok (d_charset d0)"
    unfolding ok_def using sel by force
  have pe: "ok (d_charset (plain_or_empty plain d))" for d
  proof (cases plain)
    case None
    then show ?thesis by (simp add: plain_or_empty_def ok_def)
  next
    case (Some q)
    with sel(2) have "q \<in> fst ` set atts" by simp
    with Some show ?thesis by (auto simp: plain_or_empty_def ok_def)
  qed
  have ok1: "ok (d_charset d1)"
    using clean ok0 pe [of "inline_css lib d0"]
    by (auto simp: clean_body_def Let_def inline_css_keeps split: if_splits sum.splits)
  have ok2: "ok (d_charset d2)"
    using filt ok1 pe [of d1]
    by (auto simp: filter_images_def split: if_splits sum.splits)
  from fin have "e_charset (email r) = d_charset d2" "attachments r = atts"
    by (auto simp: finish_def split: sum.splits)
  with ok2 show ?thesis unfolding ok_def by force
qed

section \<open>The body selector\<close>

text \<open>
  C3, as the spec states it: an HTML part and a plain-text part with different
  parents and equal \<open>lft\<close> values select the HTML part. The source falls
  through to its last branch, which returns \<open>True\<close>: the plain-text part.
  The parts below have parents 1 and 2 and both have \<open>lft = 3\<close>.
\<close>

theorem find_body_equal_lft_counterexample:
  "find_body True
     (Some \<lparr>pk = 10, parent = Some 1, lft = 3, rght = 4, body_data = ''<p>h</p>'',
            header_set = Map.empty, charset = ''utf-8''\<rparr>)
     (Some \<lparr>pk = 11, parent = Some 2, lft = 3, rght = 4, body_data = ''p'',
            header_set = Map.empty, charset = ''utf-8''\<rparr>)
   \<noteq> Some False"
  by simp

text \<open>
  C3, amended: an HTML part and a plain-text part with different parents and
  equal \<open>lft\<close> values are treated as \<open>html.lft > plain.lft\<close>, and the
  selector returns \<open>True\<close>, the plain-text part, whatever the preference.
\<close>

theorem find_body_equal_lft:
  assumes "parent html \<noteq> parent plain" and "lft html = lft plain"
  shows "find_body prefer_html (Some html) (Some plain) = Some True"
  using assms by simp

theorem find_body_equal_lft_witness:
  "parent \<lparr>pk = 10, parent = Some 1, lft = 3, rght = 4, body_data = ''<p>h</p>'',
           header_set = Map.empty, charset = ''utf-8''\<rparr>
   \<noteq> parent \<lparr>pk = 11, parent = Some 2, lft = 3, rght = 4, body_data = ''p'',
              header_set = Map.empty, charset = ''utf-8''\<rparr>
   \<and> find_body True
     (Some \<lparr>pk = 10, parent = Some 1, lft = 3, rght = 4, body_data = ''<p>h</p>'',
            header_set = Map.empty, charset = ''utf-8''\<rparr>)
     (Some \<lparr>pk = 11, parent = Some 2, lft = 3, rght = 4, body_data = ''p'',
            header_set = Map.empty, charset = ''utf-8''\<rparr>)
   = Some True"
  using find_body_equal_lft [of
      "\<lparr>pk = 10, parent = Some 1, lft = 3, rght = 4, body_data = ''<p>h</p>'',
        header_set = Map.empty, charset = ''utf-8''\<rparr>"
      "\<lparr>pk = 11, parent = Some 2, lft = 3, rght = 4, body_data = ''p'',
        header_set = Map.empty, charset = ''utf-8''\<rparr>" True]
  by simp

text \<open>
  C6: for an HTML part and a plain-text part with the same parent the selector
  returns the HTML part (\<open>False\<close>) when the preference \<open>prefer_html_email\<close> is set and the
  plain-text part (\<open>True\<close>) when it is not, and the answer stays the same
  whatever \<open>lft\<close> and \<open>rght\<close> values the two parts are given, their own
  values exchanged included.
\<close>

theorem find_body_siblings:
  assumes "parent html = parent plain"
  shows "find_body True (Some html) (Some plain) = Some False
       \<and> find_body False (Some html) (Some plain) = Some True
       \<and> find_body prefer_html
            (Some (html\<lparr>lft := l1, rght := r1\<rparr>)) (Some (plain\<lparr>lft := l2, rght := r2\<rparr>))
          = find_body prefer_html (Some html) (Some plain)
       \<and> find_body prefer_html
            (Some (html\<lparr>lft := lft plain, rght := rght plain\<rparr>))
            (Some (plain\<lparr>lft := lft html, rght := rght html\<rparr>))
          = find_body prefer_html (Some html) (Some plain)"
  using assms by simp

theorem find_body_siblings_witness:
  "find_body True
     (Some \<lparr>pk = 10, parent = Some 1, lft = 2, rght = 3, body_data = ''<p>h</p>'',
            header_set = Map.empty, charset = ''utf-8''\<rparr>)
     (Some \<lparr>pk = 11, parent = Some 1, lft = 4, rght = 5, body_data = ''p'',
            header_set = Map.empty, charset = ''utf-8''\<rparr>) = Some False
   \<and> find_body False
     (Some \<lparr>pk = 10, parent = Some 1, lft = 4, rght = 5, body_data = ''<p>h</p>'',
            header_set = Map.empty, charset = ''utf-8''\<rparr>)
     (Some \<lparr>pk = 11, parent = Some 1, lft = 2, rght = 3, body_data = ''p'',
            header_set = Map.empty, charset = ''utf-8''\<rparr>) = Some True"
proof -
  let ?h = "\<lparr>pk = 10, parent = Some 1, lft = 2, rght = 3, body_data = ''<p>h</p>'',
             header_set = Map.empty, charset = ''utf-8''\<rparr>"
  let ?p = "\<lparr>pk = 11, parent = Some 1, lft = 4, rght = 5, body_data = ''p'',
             header_set = Map.empty, charset = ''utf-8''\<rparr>"
  have sib: "parent ?h = parent ?p" by simp
  from find_body_siblings [OF sib, of False 0 0 0 0] show ?thesis by simp
qed

text \<open>
  C7: for an HTML part and a plain-text part with different parents the
  selector returns the part whose \<open>lft\<close> is strictly smaller, the HTML part
  (\<open>False\<close>) or the plain-text part (\<open>True\<close>), for either value of the
  preference.
\<close>

theorem find_body_not_siblings:
  assumes "parent html \<noteq> parent plain"
  shows "(lft html < lft plain \<longrightarrow>
            find_body prefer_html (Some html) (Some plain) = Some False)
       \<and> (lft plain < lft html \<longrightarrow>
            find_body prefer_html (Some html) (Some plain) = Some True)"
  using assms by simp

theorem find_body_not_siblings_witness:
  "find_body True
     (Some \<lparr>pk = 10, parent = Some 1, lft = 5, rght = 6, body_data = ''<p>h</p>'',
            header_set = Map.empty, charset = ''utf-8''\<rparr>)
     (Some \<lparr>pk = 11, parent = None, lft = 2, rght = 3, body_data = ''p'',
            header_set = Map.empty, charset = ''utf-8''\<rparr>) = Some True
   \<and> find_body False
     (Some \<lparr>pk = 10, parent = Some 1, lft = 2, rght = 3, body_data = ''<p>h</p>'',
            header_set = Map.empty, charset = ''utf-8''\<rparr>)
     (Some \<lparr>pk = 11, parent = Some 7, lft = 5, rght = 6, body_data = ''p'',
            header_set = Map.empty, charset = ''utf-8''\<rparr>) = Some False"
proof -
  let ?h1 = "\<lparr>pk = 10, parent = Some 1, lft = 5, rght = 6, body_data = ''<p>h</p>'',
              header_set = Map.empty, charset = ''utf-8''\<rparr>"
  let ?p1 = "\<lparr>pk = 11, parent = None, lft = 2, rght = 3, body_data = ''p'',
              header_set = Map.empty, charset = ''utf-8''\<rparr>"
  let ?h2 = "\<lparr>pk = 10, parent = Some 1, lft = 2, rght = 3, body_data = ''<p>h</p>'',
              header_set = Map.empty, charset = ''utf-8''\<rparr>"
  let ?p2 = "\<lparr>pk = 11, parent = Some 7, lft = 5, rght = 6, body_data = ''p'',
              header_set = Map.empty, charset = ''utf-8''\<rparr>"
  have n1: "parent ?h1 \<noteq> parent ?p1" and n2: "parent ?h2 \<noteq> parent ?p2" by simp_all
  from find_body_not_siblings [OF n1, of True] find_body_not_siblings [OF n2, of False]
  show ?thesis by simp
qed


section \<open>The top-level headers\<close>

text \<open>
  C9: without a \<open>From\<close> header the call raises \<open>KeyError\<close>, whatever else
  the message holds. Without a \<open>Subject\<close> header the call does what it does
  for the same message with the subject \<open>(No subject)\<close>, and where it
  returns, the subject and the headline are \<open>(No subject)\<close>.
\<close>

theorem from_required_subject_optional:
  "(headers obj ''From'' = None \<longrightarrow> get_context_data lib req obj = Inl KeyError)
   \<and> (headers obj ''Subject'' = None \<longrightarrow>
        get_context_data lib req obj =
          get_context_data lib req
            (obj\<lparr>headers := (headers obj)(''Subject'' \<mapsto> ''(No subject)'')\<rparr>))
   \<and> (headers obj ''Subject'' = None \<and> get_context_data lib req obj = Inr r \<longrightarrow>
        e_subject (email r) = ''(No subject)'' \<and> headline r = ''(No subject)'')"
proof -
  have no_from: "get_context_data lib req obj = Inl KeyError" if "headers obj ''From'' = None"
    using that by (simp add: get_context_data_def)
  have same: "get_context_data lib req obj =
          get_context_data lib req
            (obj\<lparr>headers := (headers obj)(''Subject'' \<mapsto> ''(No subject)'')\<rparr>)"
    if "headers obj ''Subject'' = None"
    using that
    by (simp add: get_context_data_def get_default_def finish_def
          cong: option.case_cong sum.case_cong prod.case_cong)
  have subj: "e_subject (email r) = ''(No subject)'' \<and> headline r = ''(No subject)''"
    if a: "headers obj ''Subject'' = None" and run: "get_context_data lib req obj = Inr r"
  proof -
    from a have s: "get_default (headers obj) ''Subject'' ''(No subject)'' = ''(No subject)''"
      by (simp add: get_default_def)
    from run show ?thesis
      unfolding get_context_data_def finish_def s
      by (auto simp: Let_def split: option.splits sum.splits prod.splits)
  qed
  from no_from same subj show ?thesis by blast
qed

theorem from_required_subject_optional_witness:
  "get_context_data example_libraries \<lparr>GET = Map.empty, userprofile_flags = asking_user\<rparr>
     (empty_email\<lparr>headers := [''Subject'' \<mapsto> ''Hi'']\<rparr>) = Inl KeyError
   \<and> (\<exists>r. get_context_data example_libraries
            \<lparr>GET = Map.empty, userprofile_flags = asking_user\<rparr> image_email = Inr r
         \<and> e_subject (email r) = ''(No subject)'' \<and> headline r = ''(No subject)'')"
proof -
  let ?req = "\<lparr>GET = Map.empty, userprofile_flags = asking_user\<rparr>"
  let ?no_from = "empty_email\<lparr>headers := [''Subject'' \<mapsto> ''Hi'']\<rparr>"
  have nf: "headers ?no_from ''From'' = None" by simp
  have ns: "headers image_email ''Subject'' = None" by (simp add: image_email_def)
  have f: "headers image_email ''From'' = Some ''a@example.org''"
    by (simp add: image_email_def)
  have n: "find_body (prefer_html_email (userprofile_flags ?req)) None None = None"
    by simp
  have "set_raw_body (prefer_html_email (userprofile_flags ?req)) None None
          [(image_part\<lparr>charset := ''utf-8''\<rparr>,
            \<lparr>content_type = (''image/png'', None), filename = ''a.png''\<rparr>)]
        = Inr \<lparr>d_body = ''PNG'', d_charset = ''utf-8'', d_plain_message = True, d_messages = []\<rparr>"
    by (simp add: set_raw_body_def image_part_def)
  from plain_draft_stages [OF f scan_image_email this, of example_libraries]
  obtain r where run: "get_context_data example_libraries ?req image_email = Inr r"
    by (simp add: finish_def example_libraries_def)
  from from_required_subject_optional [of ?no_from example_libraries ?req] nf
  have one: "get_context_data example_libraries ?req ?no_from = Inl KeyError"
    by blast
  from from_required_subject_optional [of image_email example_libraries ?req r] ns run
  have "e_subject (email r) = ''(No subject)'' \<and> headline r = ''(No subject)''"
    by blast
  with run one show ?thesis by blast
qed

section \<open>No viable body\<close>

text \<open>
  C8: for a message with a \<open>From\<close> header, \<open>find_body\<close> returns
  \<open>None\<close> on what the scan picked exactly when no non-container part of
  the message has the main type \<open>text/html\<close> or \<open>text/plain\<close>. When it
  does and the message has exactly one non-container part, the rendered body
  is that part's bytes, decoded with that part's resolved charset and not
  otherwise touched, and the message is plain; when it does and the message
  has any other number of non-container parts, the body is empty and the
  message is plain. The codec is taken to decode the part's bytes in the first
  case and to decode the empty string to the empty string in the second.
\<close>

theorem no_viable_body:
  assumes "headers obj ''From'' = Some sender"
    and "iterate_parts (parts obj) None None [] = (html, plain, atts)"
  shows "(find_body pref html plain = None \<longleftrightarrow>
            (\<forall>p\<in>set (non_containers (parts obj)).
                main_type p \<noteq> ''text/html'' \<and> main_type p \<noteq> ''text/plain''))
       \<and> (find_body (prefer_html_email (userprofile_flags req)) html plain = None
            \<and> non_containers (parts obj) = [p]
            \<and> decode lib (resolved_charset p) (body_data p) = Inr decoded \<longrightarrow>
            (\<exists>r. get_context_data lib req obj = Inr r \<and> e_body (email r) = decoded
                 \<and> plain_message r))
       \<and> (find_body (prefer_html_email (userprofile_flags req)) html plain = None
            \<and> length (non_containers (parts obj)) \<noteq> 1
            \<and> decode lib ''utf-8'' '''' = Inr '''' \<longrightarrow>
            (\<exists>r. get_context_data lib req obj = Inr r \<and> e_body (email r) = ''''
                 \<and> plain_message r))"
proof -
  from assms(2) have html: "html = first_of_type ''text/html'' None (parts obj)"
    and plain: "plain = first_of_type ''text/plain'' None (parts obj)"
    and atts: "atts = map attachment (non_containers (parts obj))"
    by (simp_all add: iterate_parts_eq)
  have none: "find_body x h q = None \<longleftrightarrow> h = None \<and> q = None" for x h q
    by (cases h; cases q) auto
  have candidates: "find_body pref html plain = None \<longleftrightarrow>
            (\<forall>p\<in>set (non_containers (parts obj)).
                main_type p \<noteq> ''text/html'' \<and> main_type p \<noteq> ''text/plain'')"
    unfolding none html plain first_of_type_None by blast
  have one: "\<exists>r. get_context_data lib req obj = Inr r \<and> e_body (email r) = decoded
                 \<and> plain_message r"
    if sel: "find_body (prefer_html_email (userprofile_flags req)) html plain = None"
      and parts: "non_containers (parts obj) = [p]"
      and dec: "decode lib (resolved_charset p) (body_data p) = Inr decoded"
  proof -
    let ?d = "\<lparr>d_body = body_data p, d_charset = resolved_charset p,
                d_plain_message = True, d_messages = []\<rparr>"
    have "set_raw_body (prefer_html_email (userprofile_flags req)) html plain atts = Inr ?d"
      using sel by (simp add: set_raw_body_def atts parts attachment_def resolved_def)
    from plain_draft_stages [OF assms(1,2) this] dec show ?thesis
      by (simp add: finish_def)
  qed
  have other: "\<exists>r. get_context_data lib req obj = Inr r \<and> e_body (email r) = ''''
                 \<and> plain_message r"
    if sel: "find_body (prefer_html_email (userprofile_flags req)) html plain = None"
      and parts: "length (non_containers (parts obj)) \<noteq> 1"
      and dec: "decode lib ''utf-8'' '''' = Inr ''''"
  proof -
    let ?d = "\<lparr>d_body = '''', d_charset = ''utf-8'',
                d_plain_message = True, d_messages = []\<rparr>"
    from parts have "length atts \<noteq> 1" by (simp add: atts)
    then have "set_raw_body (prefer_html_email (userprofile_flags req)) html plain atts = Inr ?d"
      using sel by (auto simp: set_raw_body_def split: list.splits)
    from plain_draft_stages [OF assms(1,2) this] dec show ?thesis
      by (simp add: finish_def)
  qed
  from candidates one other show ?thesis by blast
qed

theorem no_viable_body_witness:
  "map main_type (non_containers (parts table_email)) = [''text/csv'']
   \<and> non_containers (parts table_email) = [table_part]
   \<and> (\<exists>r. get_context_data example_libraries
           \<lparr>GET = Map.empty, userprofile_flags = asking_user\<rparr> table_email = Inr r
        \<and> e_body (email r) = ''a,b'' \<and> plain_message r)
   \<and> length (non_containers (parts mixed_email)) = 2
   \<and> (\<exists>r. get_context_data example_libraries
           \<lparr>GET = Map.empty, userprofile_flags = asking_user\<rparr> mixed_email = Inr r
        \<and> e_body (email r) = '''' \<and> plain_message r)"
proof -
  let ?req = "\<lparr>GET = Map.empty, userprofile_flags = asking_user\<rparr>"
  have f1: "headers table_email ''From'' = Some ''a@example.org''"
    by (simp add: table_email_def)
  have f2: "headers mixed_email ''From'' = Some ''a@example.org''"
    by (simp add: mixed_email_def)
  have b: "body_data table_part = ''a,b''"
    by (simp add: table_part_def)
  have mt: "map main_type (non_containers (parts table_email)) = [''text/csv'']"
    unfolding non_containers_examples
    by (simp add: main_type_def table_part_def scan_defs del: findall.simps(2))
  have d1: "decode example_libraries (resolved_charset table_part) (body_data table_part)
            = Inr ''a,b''"
    unfolding b resolved_charset_examples by (simp add: example_libraries_def)
  have d2: "decode example_libraries ''utf-8'' '''' = Inr ''''"
    by (simp add: example_libraries_def)
  note t = no_viable_body [OF f1 scan_table_email, where pref = True and req = ?req
      and p = table_part and lib = example_libraries and decoded = "''a,b''"]
  note m = no_viable_body [OF f2 scan_mixed_email, where pref = True and req = ?req
      and p = table_part and lib = example_libraries and decoded = "''a,b''"]
  from t d1
  have 2: "\<exists>r. get_context_data example_libraries ?req table_email = Inr r
        \<and> e_body (email r) = ''a,b'' \<and> plain_message r"
    by (simp add: non_containers_examples)
  have l: "length (non_containers (parts mixed_email)) = 2"
    by (simp add: non_containers_examples)
  with m d2
  have 3: "\<exists>r. get_context_data example_libraries ?req mixed_email = Inr r
        \<and> e_body (email r) = '''' \<and> plain_message r"
    by simp
  from mt 2 3 l non_containers_examples(1) show ?thesis by blast
qed

section \<open>A failure of the cleaner\<close>



section \<open>Whether images are shown\<close>

text \<open>
  Lines 205-217, case by case: a plain message shows images and does not ask;
  otherwise a query parameter \<open>imgDisplay\<close> that reads as the integer 1
  shows images and does not ask; otherwise, the parameter being absent or
  another integer, a user with \<open>ask_images\<close> is asked and no images are
  shown, and any other user sees images if and only if \<open>display_images\<close>
  is set. The one case left is a parameter that does not read as an integer
  in a message that is not plain: the conversion raises.
\<close>

lemma image_flags_cases:
  "image_flags lib req True = Inr (True, False)
   \<and> (img_display_requested lib req = Inr True \<longrightarrow>
        image_flags lib req False = Inr (True, False))
   \<and> (img_display_requested lib req = Inr False \<and> ask_images (userprofile_flags req) \<longrightarrow>
        image_flags lib req False = Inr (False, True))
   \<and> (img_display_requested lib req = Inr False \<and> \<not> ask_images (userprofile_flags req) \<longrightarrow>
        image_flags lib req False = Inr (display_images (userprofile_flags req), False))
   \<and> (img_display_requested lib req = Inl e \<longrightarrow> image_flags lib req False = Inl e)
   \<and> (img_display_requested lib req = Inr True \<longleftrightarrow>
        (\<exists>v. GET req ''imgDisplay'' = Some v \<and> py_int lib v = Inr 1))
   \<and> (img_display_requested lib req = Inr False \<longleftrightarrow>
        GET req ''imgDisplay'' = None
        \<or> (\<exists>v n. GET req ''imgDisplay'' = Some v \<and> py_int lib v = Inr n \<and> n \<noteq> 1))
   \<and> (img_display_requested lib req = Inl e \<longleftrightarrow>
        (\<exists>v. GET req ''imgDisplay'' = Some v \<and> py_int lib v = Inl e))"
proof -
  have plain: "image_flags lib req True = Inr (True, False)"
    by (simp add: image_flags_def)
  have decided: "image_flags lib req False =
      (if requested then Inr (True, False)
       else if ask_images (userprofile_flags req) then Inr (False, True)
       else Inr (display_images (userprofile_flags req), False))"
    if "img_display_requested lib req = Inr requested" for requested
    using that by (simp add: image_flags_def)
  have raised: "image_flags lib req False = Inl e" if "img_display_requested lib req = Inl e"
    using that by (simp add: image_flags_def)
  have req_def: "img_display_requested lib req =
      (case GET req ''imgDisplay'' of
         None \<Rightarrow> Inr False
       | Some v \<Rightarrow> (case py_int lib v of Inl x \<Rightarrow> Inl x | Inr n \<Rightarrow> Inr (n = 1)))"
    by (simp add: img_display_requested_def)
  have yes: "img_display_requested lib req = Inr True \<longleftrightarrow>
        (\<exists>v. GET req ''imgDisplay'' = Some v \<and> py_int lib v = Inr 1)"
    unfolding req_def by (auto split: option.splits sum.splits)
  have no: "img_display_requested lib req = Inr False \<longleftrightarrow>
        GET req ''imgDisplay'' = None
        \<or> (\<exists>v n. GET req ''imgDisplay'' = Some v \<and> py_int lib v = Inr n \<and> n \<noteq> 1)"
    unfolding req_def by (auto split: option.splits sum.splits)
  have bad: "img_display_requested lib req = Inl e \<longleftrightarrow>
        (\<exists>v. GET req ''imgDisplay'' = Some v \<and> py_int lib v = Inl e)"
    unfolding req_def by (auto split: option.splits sum.splits)
  show ?thesis
    using plain decided [of True] decided [of False] raised yes no bad by simp
qed

text \<open>
  C5 says that, the message not being plain and \<open>imgDisplay\<close> not being 1,
  a user with \<open>ask_images\<close> is asked and no images are shown, and any other
  user gets what \<open>display_images\<close> says. With the query string
  \<open>imgDisplay=abc\<close> and a message that is not plain, the decision raises
  \<open>ValueError\<close> for the user who is asked, where the claim has
  \<open>(False, True)\<close>, and for the user who is shown images, where the claim
  has \<open>(True, False)\<close>.
\<close>

theorem image_flags_non_integer_raises:
  "image_flags example_libraries
     \<lparr>GET = [''imgDisplay'' \<mapsto> literal ''abc''], userprofile_flags = asking_user\<rparr> False
   = Inl ValueError
   \<and> image_flags example_libraries
     \<lparr>GET = [''imgDisplay'' \<mapsto> literal ''abc''],
      userprofile_flags = asking_user\<lparr>ask_images := False, display_images := True\<rparr>\<rparr> False
   = Inl ValueError"
  by (simp add: image_flags_def img_display_requested_def py_int_examples)

section \<open>A failure of the image filter\<close>

text \<open>
  C2 says that a parse failure in the image filter forces the message into
  plain-text mode and reports an error, as a failure of the cleaner does.
  Here the user prefers HTML and is asked about images, the cleaner accepts
  the HTML alternative and the parser of the image filter raises: the body
  becomes the plain-text alternative with its charset, but the message is
  still marked as HTML and no message is sent.
\<close>

theorem image_filter_failure_keeps_html_mode:
  "\<exists>r. get_context_data example_libraries
          \<lparr>GET = Map.empty, userprofile_flags = asking_user\<rparr> alternative_email = Inr r
       \<and> e_body (email r) = ''hello'' \<and> e_charset (email r) = ''us-ascii''
       \<and> \<not> plain_message r \<and> messages r = []"
proof -
  let ?req = "\<lparr>GET = Map.empty, userprofile_flags = asking_user\<rparr>"
  let ?h = "html_part\<lparr>charset := ''latin-1''\<rparr>"
  let ?p = "plain_part\<lparr>charset := ''us-ascii''\<rparr>"
  let ?d = "\<lparr>d_body = ''<p>hello</p>'', d_charset = ''latin-1'',
             d_plain_message = False, d_messages = []\<rparr>"
  let ?d2 = "\<lparr>d_body = ''hello'', d_charset = ''us-ascii'',
              d_plain_message = False, d_messages = []\<rparr>"
  have f: "headers alternative_email ''From'' = Some ''a@example.org''"
    by (simp add: alternative_email_def)
  have raw: "set_raw_body (prefer_html_email (userprofile_flags ?req)) (Some ?h) (Some ?p)
               [(?p, \<lparr>content_type = (''text/plain'', Some '' charset=us-ascii''), filename = ''''\<rparr>),
                (?h, \<lparr>content_type = (''text/html'', Some '' charset=latin-1''), filename = ''''\<rparr>)]
             = Inr ?d"
    by (simp add: set_raw_body_def html_part_def plain_part_def asking_user_def)
  have clean: "clean_body example_libraries (Some ?p) ?d = Inr ?d"
    by (simp add: clean_body_def inline_css_def example_libraries_def)
  have flags: "image_flags example_libraries ?req (d_plain_message ?d) = Inr (False, True)"
    by (simp add: image_flags_def img_display_requested_def asking_user_def)
  have filt: "filter_images example_libraries (Some ?p) False ?d = Inr ?d2"
    by (simp add: filter_images_def example_libraries_def parse_failure_def
          plain_or_empty_def plain_part_def)
  from get_context_data_stages [OF f scan_alternative_email raw clean flags filt]
  show ?thesis
    by (simp add: finish_def example_libraries_def)
qed

section \<open>The charset of the result\<close>

text \<open>
  The render on its fallbacks, step by step: with no viable body, after a
  failure of the cleaner, and after a failure of the image filter.
\<close>

lemma no_viable_render:
  assumes "headers obj ''From'' = Some sender"
    and "iterate_parts (parts obj) None None [] = (html, plain, atts)"
    and "find_body (prefer_html_email (userprofile_flags req)) html plain = None"
  shows "get_context_data lib req obj =
           finish lib obj (get_default (headers obj) ''Subject'' ''(No subject)'') sender atts False
             (case non_containers (parts obj) of
                [p] \<Rightarrow> \<lparr>d_body = body_data p, d_charset = resolved_charset p,
                         d_plain_message = True, d_messages = []\<rparr>
              | _ \<Rightarrow> \<lparr>d_body = '''', d_charset = ''utf-8'',
                       d_plain_message = True, d_messages = []\<rparr>)"
proof -
  let ?d = "case non_containers (parts obj) of
                [p] \<Rightarrow> \<lparr>d_body = body_data p, d_charset = resolved_charset p,
                         d_plain_message = True, d_messages = []\<rparr>
              | _ \<Rightarrow> \<lparr>d_body = '''', d_charset = ''utf-8'',
                       d_plain_message = True, d_messages = []\<rparr>"
  from assms(2) have atts: "atts = map attachment (non_containers (parts obj))"
    by (simp add: iterate_parts_eq)
  have raw: "set_raw_body (prefer_html_email (userprofile_flags req)) html plain atts = Inr ?d"
    using assms(3)
    by (simp add: set_raw_body_def atts attachment_def resolved_def split: list.splits)
  have "d_plain_message ?d" by (simp split: list.splits)
  from plain_draft_stages [OF assms(1,2) raw this] show ?thesis .
qed

lemma clean_failure_render:
  assumes "headers obj ''From'' = Some sender"
    and "iterate_parts (parts obj) None None [] = (Some h, plain, atts)"
    and "find_body (prefer_html_email (userprofile_flags req)) (Some h) plain = Some False"
    and "clean_html lib
           (case premailer_transform lib (body_data h) of Inr b \<Rightarrow> b | Inl x \<Rightarrow> body_data h)
         = Inl e"
    and "parse_failure e"
    and "plain = None \<or> (\<exists>q. plain = Some q \<and> body_data q = [])"
  shows "\<exists>d. get_context_data lib req obj =
               finish lib obj (get_default (headers obj) ''Subject'' ''(No subject)'')
                 sender atts False d
             \<and> d_body d = '''' \<and> d_charset d = ''utf-8''"
proof -
  let ?d0 = "\<lparr>d_body = body_data h, d_charset = charset h,
               d_plain_message = False, d_messages = []\<rparr>"
  let ?d1 = "inline_css lib ?d0"
  let ?d2 = "(plain_or_empty plain ?d1)
               \<lparr>d_plain_message := True, d_messages := d_messages ?d1 @ [(ERROR, invalid_html)]\<rparr>"
  have raw: "set_raw_body (prefer_html_email (userprofile_flags req)) (Some h) plain atts = Inr ?d0"
    using assms(3) by (simp add: set_raw_body_def)
  have "clean_html lib (d_body ?d1) = Inl e"
    using assms(4) by (simp add: inline_css_body cong: sum.case_cong)
  then have clean: "clean_body lib plain ?d0 = Inr ?d2"
    using assms(5) by (simp add: clean_body_failure)
  have flags: "image_flags lib req (d_plain_message ?d2) = Inr (True, False)"
    by (simp add: image_flags_def)
  have filt: "filter_images lib plain True ?d2 = Inr ?d2"
    by (simp add: filter_images_def)
  have run: "get_context_data lib req obj =
      finish lib obj (get_default (headers obj) ''Subject'' ''(No subject)'') sender atts False ?d2"
    by (rule get_context_data_stages [OF assms(1,2) raw clean flags filt])
  have "d_body ?d2 = '''' \<and> d_charset ?d2 = ''utf-8''"
    using assms(6) by (auto simp: plain_or_empty_def)
  with run show ?thesis by blast
qed

lemma filter_failure_render:
  assumes "headers obj ''From'' = Some sender"
    and "iterate_parts (parts obj) None None [] = (Some h, plain, atts)"
    and "find_body (prefer_html_email (userprofile_flags req)) (Some h) plain = Some False"
    and "clean_html lib
           (case premailer_transform lib (body_data h) of Inr b \<Rightarrow> b | Inl x \<Rightarrow> body_data h)
         = Inr b"
    and "image_flags lib req False = Inr (False, ask)"
    and "fromstring lib b = Inl e"
    and "parse_failure e"
    and "plain = None \<or> (\<exists>q. plain = Some q \<and> body_data q = [])"
  shows "\<exists>d. get_context_data lib req obj =
               finish lib obj (get_default (headers obj) ''Subject'' ''(No subject)'')
                 sender atts ask d
             \<and> d_body d = '''' \<and> d_charset d = ''utf-8''"
proof -
  let ?d0 = "\<lparr>d_body = body_data h, d_charset = charset h,
               d_plain_message = False, d_messages = []\<rparr>"
  let ?d1 = "(inline_css lib ?d0)\<lparr>d_body := b\<rparr>"
  let ?d2 = "plain_or_empty plain ?d1"
  have raw: "set_raw_body (prefer_html_email (userprofile_flags req)) (Some h) plain atts = Inr ?d0"
    using assms(3) by (simp add: set_raw_body_def)
  have "clean_html lib (d_body (inline_css lib ?d0)) = Inr b"
    using assms(4) by (simp add: inline_css_body cong: sum.case_cong)
  then have clean: "clean_body lib plain ?d0 = Inr ?d1"
    by (simp add: clean_body_def Let_def)
  have flags: "image_flags lib req (d_plain_message ?d1) = Inr (False, ask)"
    using assms(5) by (simp add: inline_css_keeps)
  have filt: "filter_images lib plain False ?d1 = Inr ?d2"
    using assms(6,7) by (simp add: filter_images_def)
  have run: "get_context_data lib req obj =
      finish lib obj (get_default (headers obj) ''Subject'' ''(No subject)'') sender atts ask ?d2"
    by (rule get_context_data_stages [OF assms(1,2) raw clean flags filt])
  have "d_body ?d2 = '''' \<and> d_charset ?d2 = ''utf-8''"
    using assms(8) by (auto simp: plain_or_empty_def)
  with run show ?thesis by blast
qed

text \<open>
  Whatever is rendered, its attachments are those of the non-container parts
  of the message, and its charset is \<open>utf-8\<close> or the resolved charset of one
  of them.
\<close>

lemma rendered_charset:
  assumes "get_context_data lib req obj = Inr r"
  shows "attachments r = map attachment (non_containers (parts obj))
       \<and> (e_charset (email r) = ''utf-8''
          \<or> (\<exists>x\<in>set (non_containers (parts obj)). e_charset (email r) = resolved_charset x))"
proof -
  from assms obtain sender html plain atts d ask where
    scan: "iterate_parts (parts obj) None None [] = (html, plain, atts)"
    and fin: "finish lib obj (get_default (headers obj) ''Subject'' ''(No subject)'')
                sender atts ask d = Inr r"
    by (auto simp: get_context_data_def Let_def split: option.splits sum.splits prod.splits)
  from scan have atts: "atts = map attachment (non_containers (parts obj))"
    by (simp add: iterate_parts_eq)
  from fin have a: "attachments r = atts"
    by (auto simp: finish_def split: sum.splits)
  have c: "charset (fst (attachment x)) = resolved_charset x" for x
    by (simp add: attachment_def resolved_def)
  from returned_charset [OF assms]
  have "e_charset (email r) = ''utf-8''
       \<or> (\<exists>x\<in>set (non_containers (parts obj)). e_charset (email r) = resolved_charset x)"
    unfolding a atts by (auto simp: c)
  with a atts show ?thesis by simp
qed

text \<open>
  C10, on the rendered email of a message with a \<open>From\<close> header. The body
  is empty and the charset is \<open>utf-8\<close> in each of the three fallbacks to
  an empty body: no viable body with a number of non-container parts other
  than one; the HTML part selected, the cleaner failing, and no plain-text
  part with a non-empty body; the HTML part selected and cleaned, images not
  to be shown, the image filter failing to parse, and no plain-text part with
  a non-empty body. With no viable body and one non-container part the
  charset is the resolved charset of that part, which is its \<open>charset\<close>
  parameter, or \<open>utf-8\<close> where it has none. And whatever is rendered, the
  attachments are those of the non-container parts, each with its own
  resolved charset, and the charset is \<open>utf-8\<close> or the resolved charset of
  one of them. The codec is taken to decode the body that is to be rendered.
\<close>

theorem fallback_charset:
  assumes "headers obj ''From'' = Some sender"
    and "iterate_parts (parts obj) None None [] = (html, plain, atts)"
  shows "(find_body (prefer_html_email (userprofile_flags req)) html plain = None
            \<and> length (non_containers (parts obj)) \<noteq> 1
            \<and> decode lib ''utf-8'' '''' = Inr '''' \<longrightarrow>
            (\<exists>r. get_context_data lib req obj = Inr r
                 \<and> e_body (email r) = '''' \<and> e_charset (email r) = ''utf-8''))
       \<and> (find_body (prefer_html_email (userprofile_flags req)) html plain = None
            \<and> non_containers (parts obj) = [p]
            \<and> decode lib (resolved_charset p) (body_data p) = Inr decoded \<longrightarrow>
            (\<exists>r. get_context_data lib req obj = Inr r
                 \<and> e_body (email r) = decoded \<and> e_charset (email r) = resolved_charset p))
       \<and> (html = Some h
            \<and> find_body (prefer_html_email (userprofile_flags req)) html plain = Some False
            \<and> clean_html lib
                 (case premailer_transform lib (body_data h) of
                    Inr b \<Rightarrow> b | Inl x \<Rightarrow> body_data h) = Inl e
            \<and> parse_failure e
            \<and> (plain = None \<or> (\<exists>q. plain = Some q \<and> body_data q = []))
            \<and> decode lib ''utf-8'' '''' = Inr '''' \<longrightarrow>
            (\<exists>r. get_context_data lib req obj = Inr r
                 \<and> e_body (email r) = '''' \<and> e_charset (email r) = ''utf-8''))
       \<and> (html = Some h
            \<and> find_body (prefer_html_email (userprofile_flags req)) html plain = Some False
            \<and> clean_html lib
                 (case premailer_transform lib (body_data h) of
                    Inr b \<Rightarrow> b | Inl x \<Rightarrow> body_data h) = Inr cleaned
            \<and> image_flags lib req False = Inr (False, ask)
            \<and> fromstring lib cleaned = Inl e
            \<and> parse_failure e
            \<and> (plain = None \<or> (\<exists>q. plain = Some q \<and> body_data q = []))
            \<and> decode lib ''utf-8'' '''' = Inr '''' \<longrightarrow>
            (\<exists>r. get_context_data lib req obj = Inr r
                 \<and> e_body (email r) = '''' \<and> e_charset (email r) = ''utf-8''))
       \<and> resolved_charset p =
            (case params_of p ''charset'' of None \<Rightarrow> ''utf-8'' | Some cs \<Rightarrow> cs)
       \<and> (get_context_data lib req obj = Inr r \<longrightarrow>
            attachments r = map attachment (non_containers (parts obj))
            \<and> charset (fst (attachment p)) = resolved_charset p
            \<and> (e_charset (email r) = ''utf-8''
               \<or> (\<exists>x\<in>set (non_containers (parts obj)).
                     e_charset (email r) = resolved_charset x)))"
proof -
  have c1: "\<exists>r. get_context_data lib req obj = Inr r
                 \<and> e_body (email r) = '''' \<and> e_charset (email r) = ''utf-8''"
    if "find_body (prefer_html_email (userprofile_flags req)) html plain = None"
      "length (non_containers (parts obj)) \<noteq> 1" "decode lib ''utf-8'' '''' = Inr ''''"
    unfolding no_viable_render [OF assms that(1)]
    using that(2,3) by (auto simp: finish_def split: list.splits)
  have c2: "\<exists>r. get_context_data lib req obj = Inr r
                 \<and> e_body (email r) = decoded \<and> e_charset (email r) = resolved_charset p"
    if "find_body (prefer_html_email (userprofile_flags req)) html plain = None"
      "non_containers (parts obj) = [p]"
      "decode lib (resolved_charset p) (body_data p) = Inr decoded"
    unfolding no_viable_render [OF assms that(1)]
    using that(2,3) by (simp add: finish_def)
  have c3: "\<exists>r. get_context_data lib req obj = Inr r
                 \<and> e_body (email r) = '''' \<and> e_charset (email r) = ''utf-8''"
    if "html = Some h"
      "find_body (prefer_html_email (userprofile_flags req)) html plain = Some False"
      "clean_html lib
         (case premailer_transform lib (body_data h) of
            Inr b \<Rightarrow> b | Inl x \<Rightarrow> body_data h) = Inl e"
      "parse_failure e" "plain = None \<or> (\<exists>q. plain = Some q \<and> body_data q = [])"
      "decode lib ''utf-8'' '''' = Inr ''''"
  proof -
    from assms(2) that(1)
    have scan: "iterate_parts (parts obj) None None [] = (Some h, plain, atts)" by simp
    from that(1,2)
    have sel: "find_body (prefer_html_email (userprofile_flags req)) (Some h) plain = Some False"
      by simp
    from clean_failure_render [OF assms(1) scan sel that(3,4,5)] that(6)
    show ?thesis by (auto simp: finish_def)
  qed
  have c4: "\<exists>r. get_context_data lib req obj = Inr r
                 \<and> e_body (email r) = '''' \<and> e_charset (email r) = ''utf-8''"
    if "html = Some h"
      "find_body (prefer_html_email (userprofile_flags req)) html plain = Some False"
      "clean_html lib
         (case premailer_transform lib (body_data h) of
            Inr b \<Rightarrow> b | Inl x \<Rightarrow> body_data h) = Inr cleaned"
      "image_flags lib req False = Inr (False, ask)"
      "fromstring lib cleaned = Inl e"
      "parse_failure e" "plain = None \<or> (\<exists>q. plain = Some q \<and> body_data q = [])"
      "decode lib ''utf-8'' '''' = Inr ''''"
  proof -
    from assms(2) that(1)
    have scan: "iterate_parts (parts obj) None None [] = (Some h, plain, atts)" by simp
    from that(1,2)
    have sel: "find_body (prefer_html_email (userprofile_flags req)) (Some h) plain = Some False"
      by simp
    from filter_failure_render [OF assms(1) scan sel that(3,4,5,6,7)] that(8)
    show ?thesis by (auto simp: finish_def)
  qed
  have c5: "resolved_charset p =
            (case params_of p ''charset'' of None \<Rightarrow> ''utf-8'' | Some cs \<Rightarrow> cs)"
    by (simp add: resolved_charset_def get_default_def)
  have c6: "charset (fst (attachment p)) = resolved_charset p"
    by (simp add: attachment_def resolved_def)
  from c1 c2 c3 c4 c5 c6 rendered_charset [of lib req obj r] show ?thesis by blast
qed

theorem fallback_charset_witness:
  "(\<exists>r. get_context_data example_libraries
          \<lparr>GET = Map.empty, userprofile_flags = asking_user\<rparr> mixed_email = Inr r
       \<and> e_body (email r) = '''' \<and> e_charset (email r) = ''utf-8'')
   \<and> (\<exists>r. get_context_data example_libraries
          \<lparr>GET = Map.empty, userprofile_flags = asking_user\<rparr> table_email = Inr r
       \<and> e_body (email r) = ''a,b'' \<and> e_charset (email r) = ''latin-1''
       \<and> attachments r = [attachment table_part])
   \<and> (\<exists>r. get_context_data failing_cleaner
          \<lparr>GET = Map.empty, userprofile_flags = asking_user\<rparr> html_email = Inr r
       \<and> e_body (email r) = '''' \<and> e_charset (email r) = ''utf-8'')
   \<and> (\<exists>r. get_context_data example_libraries
          \<lparr>GET = Map.empty, userprofile_flags = asking_user\<rparr> html_email = Inr r
       \<and> e_body (email r) = '''' \<and> e_charset (email r) = ''utf-8'')
   \<and> resolved_charset table_part = ''latin-1''
   \<and> resolved_charset image_part = ''utf-8''"
proof -
  let ?req = "\<lparr>GET = Map.empty, userprofile_flags = asking_user\<rparr>"
  let ?h = "html_part\<lparr>charset := ''latin-1''\<rparr>"
  have f1: "headers mixed_email ''From'' = Some ''a@example.org''"
    by (simp add: mixed_email_def)
  have f2: "headers table_email ''From'' = Some ''a@example.org''"
    by (simp add: table_email_def)
  have f3: "headers html_email ''From'' = Some ''a@example.org''"
    by (simp add: html_email_def)
  have none: "find_body (prefer_html_email (userprofile_flags ?req)) None None = None"
    by simp
  have sel: "find_body (prefer_html_email (userprofile_flags ?req)) (Some ?h) None = Some False"
    by simp
  have two: "length (non_containers (parts mixed_email)) \<noteq> 1"
    by (simp add: non_containers_examples)
  have b: "body_data table_part = ''a,b''"
    by (simp add: table_part_def)
  have d1: "decode example_libraries (resolved_charset table_part) (body_data table_part)
            = Inr ''a,b''"
    unfolding b resolved_charset_examples by (simp add: example_libraries_def)
  have d2: "decode example_libraries ''utf-8'' '''' = Inr ''''"
    "decode failing_cleaner ''utf-8'' '''' = Inr ''''"
    by (simp_all add: example_libraries_def failing_cleaner_def)
  have e: "parse_failure LxmlError" by (simp add: parse_failure_def)
  have hb: "body_data ?h = ''<p>hello</p>''"
    by (simp add: html_part_def)
  have c1: "clean_html failing_cleaner
              (case premailer_transform failing_cleaner (body_data ?h) of
                 Inr b \<Rightarrow> b | Inl x \<Rightarrow> body_data ?h) = Inl LxmlError"
    by (simp add: failing_cleaner_def example_libraries_def)
  have c2: "clean_html example_libraries
              (case premailer_transform example_libraries (body_data ?h) of
                 Inr b \<Rightarrow> b | Inl x \<Rightarrow> body_data ?h) = Inr ''<p>hello</p>''"
    unfolding hb by (simp add: example_libraries_def)
  have fl: "image_flags example_libraries ?req False = Inr (False, True)"
    by (simp add: image_flags_def img_display_requested_def asking_user_def)
  have fs: "fromstring example_libraries ''<p>hello</p>'' = Inl LxmlError"
    by (simp add: example_libraries_def)
  from fallback_charset [OF f1 scan_mixed_email, where req = ?req and lib = example_libraries
      and p = table_part and decoded = "''a,b''" and h = ?h and e = LxmlError
      and cleaned = "''<p>hello</p>''" and ask = True, THEN conjunct1]
    none two d2(1)
  have 1: "\<exists>r. get_context_data example_libraries ?req mixed_email = Inr r
       \<and> e_body (email r) = '''' \<and> e_charset (email r) = ''utf-8''"
    by blast
  note t = fallback_charset [OF f2 scan_table_email, where req = ?req and lib = example_libraries
      and p = table_part and decoded = "''a,b''" and h = ?h and e = LxmlError
      and cleaned = "''<p>hello</p>''" and ask = True]
  from t [THEN conjunct2, THEN conjunct1] none non_containers_examples(1) d1
  obtain r where run: "get_context_data example_libraries ?req table_email = Inr r"
    and body: "e_body (email r) = ''a,b''"
    and cs: "e_charset (email r) = resolved_charset table_part"
    by blast
  from fallback_charset [OF f2 scan_table_email, where req = ?req and lib = example_libraries
      and p = table_part and decoded = "''a,b''" and h = ?h and e = LxmlError
      and cleaned = "''<p>hello</p>''" and ask = True and r = r] run
  have "attachments r = map attachment (non_containers (parts table_email))"
    by blast
  with run body cs
  have 2: "\<exists>r. get_context_data example_libraries ?req table_email = Inr r
       \<and> e_body (email r) = ''a,b'' \<and> e_charset (email r) = ''latin-1''
       \<and> attachments r = [attachment table_part]"
    by (simp add: non_containers_examples resolved_charset_examples)
  from fallback_charset [OF f3 scan_html_email, where req = ?req and lib = failing_cleaner
      and p = table_part and decoded = "''a,b''" and h = ?h and e = LxmlError
      and cleaned = "''<p>hello</p>''" and ask = True,
      THEN conjunct2, THEN conjunct2, THEN conjunct1]
    sel c1 e d2(2)
  have 3: "\<exists>r. get_context_data failing_cleaner ?req html_email = Inr r
       \<and> e_body (email r) = '''' \<and> e_charset (email r) = ''utf-8''"
    by blast
  from fallback_charset [OF f3 scan_html_email, where req = ?req and lib = example_libraries
      and p = table_part and decoded = "''a,b''" and h = ?h and e = LxmlError
      and cleaned = "''<p>hello</p>''" and ask = True,
      THEN conjunct2, THEN conjunct2, THEN conjunct2, THEN conjunct1]
    sel c2 fl fs e d2(1)
  have 4: "\<exists>r. get_context_data example_libraries ?req html_email = Inr r
       \<and> e_body (email r) = '''' \<and> e_charset (email r) = ''utf-8''"
    by blast
  from 1 2 3 4 resolved_charset_examples show ?thesis by blast
qed

section \<open>Whether the call returns\<close>

text \<open>
  C1 says that the call returns a body for every message and request. A message
  with an HTML body and the query string \<open>imgDisplay=abc\<close>: the conversion
  at line 209 raises \<open>ValueError\<close> and nothing catches it.
\<close>

theorem non_numeric_imgDisplay_raises:
  "get_context_data example_libraries
     \<lparr>GET = [''imgDisplay'' \<mapsto> literal ''abc''], userprofile_flags = asking_user\<rparr> html_email
   = Inl ValueError"
proof -
  let ?req = "\<lparr>GET = [''imgDisplay'' \<mapsto> literal ''abc''], userprofile_flags = asking_user\<rparr>"
  let ?h = "html_part\<lparr>charset := ''latin-1''\<rparr>"
  let ?d = "\<lparr>d_body = ''<p>hello</p>'', d_charset = ''latin-1'',
             d_plain_message = False, d_messages = []\<rparr>"
  have raw: "set_raw_body (prefer_html_email (userprofile_flags ?req)) (Some ?h) None
               [(?h, \<lparr>content_type = (''text/html'', Some '' charset=latin-1''), filename = ''''\<rparr>)]
             = Inr ?d"
    by (simp add: set_raw_body_def html_part_def)
  have clean: "clean_body example_libraries None ?d = Inr ?d"
    by (simp add: clean_body_def inline_css_def example_libraries_def)
  have flags: "image_flags example_libraries ?req (d_plain_message ?d) = Inl ValueError"
    by (simp add: image_flags_def img_display_requested_def py_int_examples)
  have f: "headers html_email ''From'' = Some ''a@example.org''"
    by (simp add: html_email_def)
  show ?thesis
    by (rule get_context_data_flags_raise [OF f scan_html_email raw clean flags])
qed

end
